theory Spec2Isabelle
  imports Complex_Main "HOL-Library.Word" "HOL-Library.Char_ord" "HOL-Library.List_Lexorder"
begin

section \<open>Data model\<close>

text \<open>
  Go's \<open>error\<close> interface is modelled by the message that \<open>err.Error()\<close> returns; a nil
  error is \<open>None\<close> of \<open>error option\<close>, and a Go result pair \<open>(v, err)\<close> with exactly one
  side set is a value of \<open>error + 'a\<close>.
\<close>

datatype error = Error string

fun errorText :: "error \<Rightarrow> string" where
  "errorText (Error s) = s"

text \<open>
  A \<open>float64\<close> is only ever compared in this program, never computed with. Finite values
  are modelled by the real number they denote (both zeros are \<open>Finite 0\<close>; the model admits
  every real, a superset of the representable ones); infinities and NaN are separate
  constructors. \<open>flt\<close> and \<open>fle\<close> are the IEEE comparisons \<open><\<close> and \<open><=\<close>: every
  comparison with NaN is false.
\<close>

datatype float64 = NaN | NegInf | Finite real | PosInf

fun flt :: "float64 \<Rightarrow> float64 \<Rightarrow> bool" where
  "flt NaN _ = False"
| "flt _ NaN = False"
| "flt _ NegInf = False"
| "flt NegInf _ = True"
| "flt PosInf _ = False"
| "flt (Finite x) (Finite y) = (x < y)"
| "flt (Finite x) PosInf = True"

fun fle :: "float64 \<Rightarrow> float64 \<Rightarrow> bool" where
  "fle NaN _ = False"
| "fle _ NaN = False"
| "fle NegInf _ = True"
| "fle _ PosInf = True"
| "fle PosInf _ = False"
| "fle (Finite x) (Finite y) = (x \<le> y)"
| "fle (Finite x) NegInf = False"

definition MaxFloat64 :: float64 where
  "MaxFloat64 = Finite ((2 ^ 53 - 1) * 2 ^ 971)"

record Pod =
  Pod_Name :: string
  Pod_NodeName :: string

text \<open>
  A \<open>corev1.Node\<close>, as far as the code touches it: its name and its label map. A Go map
  can be nil, and writing an entry into a nil map panics, so the label map is optional:
  \<open>None\<close> is the nil map.
\<close>

record Node =
  Node_Name :: string
  Node_Labels :: "(string \<rightharpoonup> string) option"

text \<open>
  A worker of \<open>shoot.Spec.Provider.Workers\<close> and the shoot itself, reduced to the fields
  the code reads. \<open>Maximum\<close> is an \<open>int32\<close>.
\<close>

record Worker =
  Worker_Name :: string
  Worker_Zones :: "string list"
  Worker_Maximum :: "32 word"
  Worker_MachineType :: string

record Shoot =
  Shoot_Name :: string
  Shoot_Workers :: "Worker list"

text \<open>\<open>scalesim.NodePool\<close>, with the five fields that \<open>getEligibleNodePools\<close> sets.\<close>

record NodePool =
  NodePool_Name :: string
  NodePool_Zones :: "string list"
  NodePool_Max :: "32 word"
  NodePool_Current :: "32 word"
  NodePool_MachineType :: string

text \<open>
  Modelled from the spec: the declaration of \<open>scalesim.NodeRunResult\<close> is not part of the
  source tree. The code reads its field \<open>CumulativeScore\<close>; the specification's trial result
  carries "the trial's pool reference" and "a cumulative score", so the pool is kept as the
  pool's name.
\<close>

record NodeRunResult =
  NodePoolName :: string
  CumulativeScore :: float64

record runResult =
  runResult_result :: NodeRunResult
  runResult_unscheduledPods :: "Pod list"
  runResult_err :: "error option"

text \<open>The zero values that \<open>var winner runResult\<close> and \<open>runResult{}\<close> denote.\<close>

definition zeroNodeRunResult :: NodeRunResult where
  "zeroNodeRunResult = \<lparr>NodePoolName = [], CumulativeScore = Finite 0\<rparr>"

definition zeroRunResult :: runResult where
  "zeroRunResult = \<lparr>runResult_result = zeroNodeRunResult, runResult_unscheduledPods = [], runResult_err = None\<rparr>"

section \<open>Winner selection\<close>

text \<open>
  \<open>getWinner\<close>: the \<open>for _, v := range results\<close> loop with its two variables \<open>winner\<close> and
  \<open>minScore\<close>, entered with the zero \<open>runResult\<close> and \<open>math.MaxFloat64\<close>.
\<close>

fun getWinner_loop :: "runResult list \<Rightarrow> runResult \<Rightarrow> float64 \<Rightarrow> runResult" where
  "getWinner_loop [] winner minScore = winner"
| "getWinner_loop (v # vs) winner minScore =
     (if flt (CumulativeScore (runResult_result v)) minScore
      then getWinner_loop vs v (CumulativeScore (runResult_result v))
      else getWinner_loop vs winner minScore)"

definition getWinner :: "runResult list \<Rightarrow> runResult" where
  "getWinner results = getWinner_loop results zeroRunResult MaxFloat64"

section \<open>The engine and the recommender\<close>

text \<open>
  \<open>scalesim.Engine\<close> with its \<open>VirtualClusterAccess\<close> and \<open>ShootAccess\<close> is an interface
  whose implementation lies outside the code at hand, so it is a parameter: a record of
  operations over an arbitrary world \<open>'w\<close> (the sandbox, the source cluster, the network
  and whatever else decides an answer). Every call takes the world and returns the next
  one, so a call may succeed once and fail the next time, and \<open>AddNodes\<close> may change what
  later listings return. The context argument is part of the world.
\<close>

record 'w Engine =
  ListPods :: "'w \<Rightarrow> (error + Pod list) \<times> 'w"
  ListNodes :: "'w \<Rightarrow> (error + Node list) \<times> 'w"
  ListNodesInNodePool :: "string \<Rightarrow> 'w \<Rightarrow> (error + Node list) \<times> 'w"
  AddNodes :: "Node list \<Rightarrow> 'w \<Rightarrow> error option \<times> 'w"
  ClearAll :: "'w \<Rightarrow> error option \<times> 'w"
  GetShootObj :: "string \<Rightarrow> 'w \<Rightarrow> (error + Shoot) \<times> 'w"

record StrategyWeights =
  LeastWaste :: float64
  LeastCost :: float64

text \<open>
  The \<open>Recommender\<close> struct. Its \<open>logWriter\<close> is a sink that only ever grows: it is the
  list of log entries that \<open>Run\<close> threads and returns.
\<close>

record 'w Recommender =
  engine :: "'w Engine"
  shootNodes :: "Node list"
  scenarioName :: string
  shootName :: string
  strategyWeights :: StrategyWeights

type_synonym Recommendation = "string \<rightharpoonup> int"

text \<open>
  What \<open>Run\<close> writes through \<open>webutil\<close>, one constructor per call site. The formatted text
  is kept as the values formatted into it. The no-winner message formats a variable
  \<open>runCounter\<close> that is declared nowhere, so its entry carries no number.
\<close>

datatype logEntry =
    LogInternalError error
  | LogRunStarted nat
  | LogAllScheduled
  | LogRoundError string error
  | LogNoWinner
  | LogWinningScore nat NodeRunResult

text \<open>
  A goroutine that panics takes the process down: neither \<open>Run\<close> nor anything else returns.
\<close>

datatype 'a outcome = Panics | Returns 'a

section \<open>Eligible node pools\<close>

text \<open>
  \<open>getEligibleNodePools\<close>: one \<open>ListNodesInNodePool\<close> call per worker, in order. A failing
  call returns its error at once; \<open>int32(len(nodes)) >= worker.Maximum\<close> is a signed
  comparison after truncation of the length to 32 bits.
\<close>

definition int32_len :: "'a list \<Rightarrow> 32 word" where
  "int32_len xs = word_of_nat (length xs)"

fun getEligibleNodePools_loop ::
  "'w Recommender \<Rightarrow> Worker list \<Rightarrow> NodePool list \<Rightarrow> 'w \<Rightarrow> (error + NodePool list) \<times> 'w" where
  "getEligibleNodePools_loop r [] eligibleNodePools w = (Inr eligibleNodePools, w)"
| "getEligibleNodePools_loop r (worker # workers) eligibleNodePools w =
     (case ListNodesInNodePool (engine r) (Worker_Name worker) w of
        (Inl e, w1) \<Rightarrow> (Inl e, w1)
      | (Inr nodes, w1) \<Rightarrow>
          if Worker_Maximum worker \<le>s int32_len nodes
          then getEligibleNodePools_loop r workers eligibleNodePools w1
          else getEligibleNodePools_loop r workers
                 (eligibleNodePools @
                   [\<lparr>NodePool_Name = Worker_Name worker,
                     NodePool_Zones = Worker_Zones worker,
                     NodePool_Max = Worker_Maximum worker,
                     NodePool_Current = int32_len nodes,
                     NodePool_MachineType = Worker_MachineType worker\<rparr>]) w1)"

definition getEligibleNodePools ::
  "'w Recommender \<Rightarrow> Shoot \<Rightarrow> 'w \<Rightarrow> (error + NodePool list) \<times> 'w" where
  "getEligibleNodePools r shoot w = getEligibleNodePools_loop r (Shoot_Workers shoot) [] w"

section \<open>One trial\<close>

text \<open>\<open>strconv.Itoa\<close> on a non-negative number: its decimal digits.\<close>

definition digit :: "nat \<Rightarrow> char" where
  "digit d = ''0123456789'' ! d"

fun Itoa :: "nat \<Rightarrow> string" where
  "Itoa n = (if n < 10 then [digit n] else Itoa (n div 10) @ [digit (n mod 10)])"

declare Itoa.simps [simp del]

text \<open>
  The result channel: its capacity, what has been sent and not yet received (oldest
  first), and whether it is closed.
\<close>

record chan =
  chan_cap :: nat
  chan_buf :: "runResult list"
  chan_closed :: bool

definition make_chan :: "nat \<Rightarrow> chan" where
  "make_chan n = \<lparr>chan_cap = n, chan_buf = [], chan_closed = False\<rparr>"

definition send :: "chan \<Rightarrow> runResult \<Rightarrow> chan" where
  "send c x = c\<lparr>chan_buf := chan_buf c @ [x]\<rparr>"

text \<open>
  The loop of the trial that copies every listed node, renames the copy and writes the
  simulation label into its label map. \<open>None\<close> is the panic of the write into a nil map.
\<close>

fun copyNodes :: "string \<Rightarrow> string \<Rightarrow> Node list \<Rightarrow> Node list \<Rightarrow> Node list option" where
  "copyNodes labelKey labelValue [] NodeList = Some NodeList"
| "copyNodes labelKey labelValue (node # nodes) NodeList =
     (case Node_Labels node of
        None \<Rightarrow> None
      | Some labels \<Rightarrow>
          copyNodes labelKey labelValue nodes
            (NodeList @
              [node\<lparr>Node_Name := Node_Name node @ ''SimRun-'' @ labelValue,
                    Node_Labels := Some (labels(labelKey \<mapsto> labelValue))\<rparr>]))"

text \<open>
  \<open>runSimulationForNodePool\<close>: the trial of one pool. It sends on the result channel in
  its two error branches only; after the second listing succeeds the function ends. The
  value that \<open>AddNodes\<close> returns is dropped.
\<close>

definition runSimulationForNodePool ::
  "'w Recommender \<Rightarrow> NodePool \<Rightarrow> chan \<Rightarrow> nat \<Rightarrow> 'w \<Rightarrow> chan outcome \<times> 'w" where
  "runSimulationForNodePool r nodePool resultCh runNum w =
     (let runRes = zeroRunResult;
          labelKey = ''app.kubernetes.io/simulation-run'';
          labelValue = NodePool_Name nodePool @ ''-'' @ Itoa runNum
      in case ListNodes (engine r) w of
           (Inl e, w1) \<Rightarrow> (Returns (send resultCh (runRes\<lparr>runResult_err := Some e\<rparr>)), w1)
         | (Inr nodes, w1) \<Rightarrow>
             (case copyNodes labelKey labelValue nodes [] of
                None \<Rightarrow> (Panics, w1)
              | Some NodeList \<Rightarrow>
                  (case AddNodes (engine r) NodeList w1 of
                     (_, w2) \<Rightarrow>
                       (case ListPods (engine r) w2 of
                          (Inl e, w3) \<Rightarrow> (Returns (send resultCh (runRes\<lparr>runResult_err := Some e\<rparr>)), w3)
                        | (Inr pods, w3) \<Rightarrow> (Returns resultCh, w3)))))"

section \<open>One round\<close>

text \<open>
  \<open>triggerNodePoolSimulations\<close> starts one goroutine per pool, waits for all of them and
  closes the channel. The channel has room for one result per pool, so no trial ever waits
  for the receiver, and the schedule modelled here is one the program has: the trials run
  to their end one after the other in the order of the pools, then the channel is closed,
  then \<open>runSimulation\<close> receives.
\<close>

fun triggerNodePoolSimulations_loop ::
  "'w Recommender \<Rightarrow> NodePool list \<Rightarrow> chan \<Rightarrow> nat \<Rightarrow> 'w \<Rightarrow> chan outcome \<times> 'w" where
  "triggerNodePoolSimulations_loop r [] resultCh runNum w = (Returns resultCh, w)"
| "triggerNodePoolSimulations_loop r (nodePool # nodePools) resultCh runNum w =
     (case runSimulationForNodePool r nodePool resultCh runNum w of
        (Panics, w1) \<Rightarrow> (Panics, w1)
      | (Returns resultCh1, w1) \<Rightarrow>
          triggerNodePoolSimulations_loop r nodePools resultCh1 runNum w1)"

definition triggerNodePoolSimulations ::
  "'w Recommender \<Rightarrow> NodePool list \<Rightarrow> chan \<Rightarrow> nat \<Rightarrow> 'w \<Rightarrow> chan outcome \<times> 'w" where
  "triggerNodePoolSimulations r nodePools resultCh runNum w =
     (case triggerNodePoolSimulations_loop r nodePools resultCh runNum w of
        (Panics, w1) \<Rightarrow> (Panics, w1)
      | (Returns resultCh1, w1) \<Rightarrow> (Returns (resultCh1\<lparr>chan_closed := True\<rparr>), w1))"

text \<open>
  The receiving loop of \<open>runSimulation\<close> over the variables \<open>errs\<close> and \<open>results\<close>. For a
  failed result the code evaluates \<open>errors.Join(errs, err)\<close> and assigns it to the blank
  identifier, so \<open>errs\<close> keeps its value.
\<close>

fun collect :: "runResult list \<Rightarrow> error option \<Rightarrow> runResult list \<Rightarrow> error option \<times> runResult list" where
  "collect [] errs results = (errs, results)"
| "collect (res # rest) errs results =
     (if runResult_err res \<noteq> None then collect rest errs results
      else collect rest errs (results @ [res]))"

text \<open>
  \<open>runSimulation\<close> returns a pointer to the winner's result, the winner's unscheduled pods
  and an error. The pointer is \<open>None\<close> when nil. Where the code returns \<open>nil, nil, err\<close>
  after the receiving loop, \<open>err\<close> is the variable that \<open>getEligibleNodePools\<close> assigned,
  which is nil on that path. The parameter \<open>pods\<close> is not read.
\<close>

definition runSimulation ::
  "'w Recommender \<Rightarrow> Shoot \<Rightarrow> Pod list \<Rightarrow> nat \<Rightarrow> 'w
     \<Rightarrow> (NodeRunResult option \<times> Pod list \<times> error option) outcome \<times> 'w" where
  "runSimulation r shoot pods runNum w =
     (case getEligibleNodePools r shoot w of
        (Inl e, w1) \<Rightarrow> (Returns (None, [], Some e), w1)
      | (Inr eligibleNodePools, w1) \<Rightarrow>
          (case triggerNodePoolSimulations r eligibleNodePools
                  (make_chan (length eligibleNodePools)) runNum w1 of
             (Panics, w2) \<Rightarrow> (Panics, w2)
           | (Returns resultCh, w2) \<Rightarrow>
               (case collect (chan_buf resultCh) None [] of
                  (errs, results) \<Rightarrow>
                    if errs \<noteq> None then (Returns (None, [], None), w2)
                    else (let winningResult = getWinner results
                          in (Returns (Some (runResult_result winningResult),
                                       runResult_unscheduledPods winningResult, None), w2)))))"

section \<open>The scale-up loop\<close>

definition getShoot :: "'w Recommender \<Rightarrow> 'w \<Rightarrow> (error + Shoot) \<times> 'w" where
  "getShoot r w =
     (case GetShootObj (engine r) (shootName r) w of
        (Inl e, w1) \<Rightarrow> (Inl e, w1)
      | (Inr shoot, w1) \<Rightarrow> (Inr shoot, w1))"

text \<open>
  The \<open>for\<close> loop of \<open>Run\<close> has no bound of its own. The model counts rounds: \<open>fuel\<close> is the
  number of calls of \<open>runSimulation\<close> the loop may still make, and \<open>None\<close> says that the
  loop wanted one more. The loop variables are the recommendation, the pods still to be
  scheduled and the run number; the log and the world are threaded along. No statement
  of the loop writes the recommendation.
\<close>

fun Run_loop ::
  "'w Recommender \<Rightarrow> Shoot \<Rightarrow> nat \<Rightarrow> Recommendation \<Rightarrow> Pod list \<Rightarrow> nat \<Rightarrow> logEntry list \<Rightarrow> 'w
     \<Rightarrow> ((Recommendation \<times> error option) outcome \<times> logEntry list \<times> 'w) option" where
  "Run_loop r shoot fuel recommendation unscheduledPods runNumber lg w =
     (if length unscheduledPods = 0
      then Some (Returns (recommendation, None),
                 lg @ [LogRunStarted (runNumber + 1), LogAllScheduled], w)
      else (case fuel of
              0 \<Rightarrow> None
            | Suc fuel' \<Rightarrow>
                (case runSimulation r shoot unscheduledPods (runNumber + 1) w of
                   (Panics, w1) \<Rightarrow> Some (Panics, lg @ [LogRunStarted (runNumber + 1)], w1)
                 | (Returns (winningNodeResult, unscheduledPods1, Some e), w1) \<Rightarrow>
                     Some (Returns (recommendation, None),
                           lg @ [LogRunStarted (runNumber + 1),
                                 LogRoundError (Shoot_Name shoot) e], w1)
                 | (Returns (None, unscheduledPods1, None), w1) \<Rightarrow>
                     Some (Returns (recommendation, None),
                           lg @ [LogRunStarted (runNumber + 1), LogNoWinner], w1)
                 | (Returns (Some winner, unscheduledPods1, None), w1) \<Rightarrow>
                     Run_loop r shoot fuel' recommendation unscheduledPods1 (runNumber + 1)
                       (lg @ [LogRunStarted (runNumber + 1),
                              LogWinningScore (runNumber + 1) winner]) w1)))"

declare Run_loop.simps [simp del]

text \<open>
  \<open>Run\<close>: the recommendation is created empty; a failing \<open>ListPods\<close> or \<open>getShoot\<close> returns
  it with the error; otherwise the loop runs from run number 0 and \<open>Run\<close> returns the
  recommendation with a nil error.
\<close>

definition Run ::
  "'w Recommender \<Rightarrow> nat \<Rightarrow> 'w
     \<Rightarrow> ((Recommendation \<times> error option) outcome \<times> logEntry list \<times> 'w) option" where
  "Run r fuel w =
     (let recommendation = Map.empty
      in case ListPods (engine r) w of
           (Inl e, w1) \<Rightarrow> Some (Returns (recommendation, Some e), [], w1)
         | (Inr unscheduledPods, w1) \<Rightarrow>
             (case getShoot r w1 of
                (Inl e, w2) \<Rightarrow> Some (Returns (recommendation, Some e), [LogInternalError e], w2)
              | (Inr shoot, w2) \<Rightarrow> Run_loop r shoot fuel recommendation unscheduledPods 0 [] w2))"

section \<open>The HTTP handler that clears the virtual cluster\<close>

text \<open>
  An \<open>http.ResponseWriter\<close> as the client sees it: the status line, which is fixed by the
  first \<open>WriteHeader\<close> or, failing that, by the first \<open>Write\<close> (with 200), and the body
  written so far. A later \<open>WriteHeader\<close> changes nothing. \<open>http.Error\<close> calls
  \<open>WriteHeader\<close> with its code and prints the message and a newline.
\<close>

record ResponseWriter =
  rw_status :: "nat option"
  rw_body :: string

definition newResponseWriter :: ResponseWriter where
  "newResponseWriter = \<lparr>rw_status = None, rw_body = []\<rparr>"

definition WriteHeader :: "ResponseWriter \<Rightarrow> nat \<Rightarrow> ResponseWriter" where
  "WriteHeader rw code = (case rw_status rw of None \<Rightarrow> rw\<lparr>rw_status := Some code\<rparr> | Some _ \<Rightarrow> rw)"

definition Write :: "ResponseWriter \<Rightarrow> string \<Rightarrow> ResponseWriter" where
  "Write rw s = (let rw1 = WriteHeader rw 200 in rw1\<lparr>rw_body := rw_body rw1 @ s\<rparr>)"

definition http_Error :: "ResponseWriter \<Rightarrow> string \<Rightarrow> nat \<Rightarrow> ResponseWriter" where
  "http_Error rw msg code = Write (WriteHeader rw code) (msg @ [CHR 0x0A])"

definition StatusInternalServerError :: nat where
  "StatusInternalServerError = 500"

text \<open>
  \<open>handleClearVirtualCluster\<close>: \<open>ClearAll\<close>, then the success text, then the test of the
  error.
\<close>

definition handleClearVirtualCluster ::
  "'w Engine \<Rightarrow> ResponseWriter \<Rightarrow> 'w \<Rightarrow> ResponseWriter \<times> 'w" where
  "handleClearVirtualCluster virtualAccess rw w =
     (case ClearAll virtualAccess w of
        (e, w1) \<Rightarrow>
          (let rw1 = Write rw ''Cleared virtual cluster objects''
           in case e of
                None \<Rightarrow> (rw1, w1)
              | Some e' \<Rightarrow> (http_Error rw1 (errorText e') StatusInternalServerError, w1)))"

section \<open>Notions used to state the properties\<close>

text \<open>Every result waiting in the channel is a failed one.\<close>

definition all_failed :: "chan \<Rightarrow> bool" where
  "all_failed c = (\<forall>x\<in>set (chan_buf c). runResult_err x \<noteq> None)"

text \<open>
  The node lists that the calls of \<open>ListNodesInNodePool\<close> made for the given workers
  return, one per worker, up to the first call that fails.
\<close>

fun nodeListings :: "'w Recommender \<Rightarrow> Worker list \<Rightarrow> 'w \<Rightarrow> Node list list" where
  "nodeListings r [] w = []"
| "nodeListings r (worker # workers) w =
     (case ListNodesInNodePool (engine r) (Worker_Name worker) w of
        (Inl e, w1) \<Rightarrow> []
      | (Inr nodes, w1) \<Rightarrow> nodes # nodeListings r workers w1)"

text \<open>The pool record of a worker whose listing returned the given nodes.\<close>

definition toNodePool :: "Worker \<times> Node list \<Rightarrow> NodePool" where
  "toNodePool p =
     \<lparr>NodePool_Name = Worker_Name (fst p),
      NodePool_Zones = Worker_Zones (fst p),
      NodePool_Max = Worker_Maximum (fst p),
      NodePool_Current = int32_len (snd p),
      NodePool_MachineType = Worker_MachineType (fst p)\<rparr>"

text \<open>
  Headroom as the code tests it, on the 32-bit count, and as a comparison of the number of
  nodes with the maximum.
\<close>

definition hasHeadroom32 :: "Worker \<times> Node list \<Rightarrow> bool" where
  "hasHeadroom32 p = (int32_len (snd p) <s Worker_Maximum (fst p))"

definition hasHeadroom :: "Worker \<times> Node list \<Rightarrow> bool" where
  "hasHeadroom p = (int (length (snd p)) < sint (Worker_Maximum (fst p)))"

section \<open>Concrete inputs\<close>

text \<open>
  A small sandbox: the world is its list of nodes. Listings return what is there, a pool's
  nodes are those labelled with the pool's name, and \<open>AddNodes\<close> appends.
\<close>

definition trial :: "string \<Rightarrow> float64 \<Rightarrow> Pod list \<Rightarrow> runResult" where
  "trial pool s pods =
     \<lparr>runResult_result = \<lparr>NodePoolName = pool, CumulativeScore = s\<rparr>,
      runResult_unscheduledPods = pods, runResult_err = None\<rparr>"

definition pod1 :: Pod where
  "pod1 = \<lparr>Pod_Name = ''pod-1'', Pod_NodeName = []\<rparr>"

definition workerA :: Worker where
  "workerA = \<lparr>Worker_Name = ''pool-a'', Worker_Zones = [''zone-1''],
              Worker_Maximum = 2, Worker_MachineType = ''m5.large''\<rparr>"

definition workerB :: Worker where
  "workerB = \<lparr>Worker_Name = ''pool-b'', Worker_Zones = [''zone-1''],
              Worker_Maximum = 1, Worker_MachineType = ''m5.2xlarge''\<rparr>"

definition shoot1 :: Shoot where
  "shoot1 = \<lparr>Shoot_Name = ''shoot-1'', Shoot_Workers = [workerA, workerB]\<rparr>"

definition poolLabel :: string where
  "poolLabel = ''worker.gardener.cloud/pool''"

definition nodeB :: Node where
  "nodeB = \<lparr>Node_Name = ''node-b'', Node_Labels = Some [poolLabel \<mapsto> ''pool-b'']\<rparr>"

definition nodeNoLabels :: Node where
  "nodeNoLabels = \<lparr>Node_Name = ''node-0'', Node_Labels = None\<rparr>"

definition inPool :: "string \<Rightarrow> Node \<Rightarrow> bool" where
  "inPool name node =
     (case Node_Labels node of None \<Rightarrow> False | Some labels \<Rightarrow> labels poolLabel = Some name)"

definition sandbox :: "Pod list \<Rightarrow> (error + Shoot) \<Rightarrow> Node list Engine" where
  "sandbox pods shootObj =
     \<lparr>ListPods = (\<lambda>w. (Inr pods, w)),
      ListNodes = (\<lambda>w. (Inr w, w)),
      ListNodesInNodePool = (\<lambda>name w. (Inr (filter (inPool name) w), w)),
      AddNodes = (\<lambda>nodes w. (None, w @ nodes)),
      ClearAll = (\<lambda>w. (None, [])),
      GetShootObj = (\<lambda>name w. (shootObj, w))\<rparr>"

definition recommenderOf :: "Node list Engine \<Rightarrow> Node list Recommender" where
  "recommenderOf e =
     \<lparr>engine = e, shootNodes = [], scenarioName = ''scenario'', shootName = ''shoot-1'',
      strategyWeights = \<lparr>LeastWaste = Finite 1, LeastCost = Finite 1\<rparr>\<rparr>"

text \<open>One pod pending, the shoot available, every call succeeds.\<close>

definition rOK :: "Node list Recommender" where
  "rOK = recommenderOf (sandbox [pod1] (Inr shoot1))"

text \<open>The same, but every \<open>ListNodes\<close> call fails, so every trial fails.\<close>

definition rListNodesFails :: "Node list Recommender" where
  "rListNodesFails =
     recommenderOf ((sandbox [pod1] (Inr shoot1))
       \<lparr>ListNodes := (\<lambda>w. (Inl (Error ''list nodes: connection refused''), w))\<rparr>)"

text \<open>The same, but \<open>AddNodes\<close> fails and adds nothing.\<close>

definition rAddNodesFails :: "Node list Recommender" where
  "rAddNodesFails =
     recommenderOf ((sandbox [pod1] (Inr shoot1))
       \<lparr>AddNodes := (\<lambda>nodes w. (Some (Error ''add nodes: forbidden''), w))\<rparr>)"

text \<open>Nothing pending, and the shoot cannot be fetched.\<close>

definition rNoShoot :: "Node list Recommender" where
  "rNoShoot = recommenderOf (sandbox [] (Inl (Error ''shoot not found'')))"

text \<open>Nothing pending, the shoot available.\<close>

definition rIdle :: "Node list Recommender" where
  "rIdle = recommenderOf (sandbox [] (Inr shoot1))"

text \<open>\<open>ClearAll\<close> fails.\<close>

definition clearFails :: "Node list Engine" where
  "clearFails =
     (sandbox [] (Inr shoot1))\<lparr>ClearAll := (\<lambda>w. (Some (Error ''delete nodes: timeout''), w))\<rparr>"

section \<open>The loop over an arbitrary round\<close>







text \<open>Two pods pending, the shoot available, every call succeeds.\<close>

definition pod2 :: Pod where
  "pod2 = \<lparr>Pod_Name = ''pod-2'', Pod_NodeName = []\<rparr>"

definition rTwoPods :: "Node list Recommender" where
  "rTwoPods = recommenderOf (sandbox [pod1, pod2] (Inr shoot1))"

section \<open>The order on scores\<close>

lemma flt_trans: "flt a b \<Longrightarrow> flt b c \<Longrightarrow> flt a c"
  by (cases a; cases b; cases c) auto

lemma flt_not_fle: "flt a b \<Longrightarrow> \<not> fle b a"
  by (cases a; cases b) auto

lemma not_flt_bound: "\<not> flt v m \<Longrightarrow> flt x m \<Longrightarrow> \<not> fle v x"
  by (cases v; cases m; cases x) auto

lemma not_flt_fle: "\<not> flt v x \<Longrightarrow> v \<noteq> NaN \<Longrightarrow> x \<noteq> NaN \<Longrightarrow> fle x v"
  by (cases v; cases x) auto

lemma not_fle_not_flt: "\<not> fle v x \<Longrightarrow> \<not> flt v x"
  by (cases v; cases x) auto

lemma flt_not_NaN: "flt a b \<Longrightarrow> a \<noteq> NaN \<and> b \<noteq> NaN"
  by (cases a; cases b) auto

section \<open>Winner selection: what the loop returns\<close>

text \<open>
  Either no result is below the starting minimum and the starting winner comes back, or
  the result list splits around the returned element: everything before it is strictly
  worse (or NaN), nothing after it is strictly better.
\<close>

lemma getWinner_loop_shape:
  "(getWinner_loop vs w m = w \<and> (\<forall>v\<in>set vs. \<not> flt (CumulativeScore (runResult_result v)) m)) \<or>
   (\<exists>pre post. vs = pre @ getWinner_loop vs w m # post \<and>
      flt (CumulativeScore (runResult_result (getWinner_loop vs w m))) m \<and>
      (\<forall>v\<in>set pre. \<not> fle (CumulativeScore (runResult_result v))
                         (CumulativeScore (runResult_result (getWinner_loop vs w m)))) \<and>
      (\<forall>v\<in>set post. \<not> flt (CumulativeScore (runResult_result v))
                          (CumulativeScore (runResult_result (getWinner_loop vs w m)))))"
proof (induction vs arbitrary: w m)
  case Nil
  show ?case by simp
next
  case (Cons v vs)
  let ?sc = "\<lambda>x. CumulativeScore (runResult_result x)"
  show ?case
  proof (cases "flt (?sc v) m")
    case True
    let ?g = "getWinner_loop vs v (?sc v)"
    have eq: "getWinner_loop (v # vs) w m = ?g" using True by simp
    from Cons.IH [of v "?sc v"] show ?thesis
    proof (elim disjE conjE exE)
      assume same: "?g = v" and rest: "\<forall>u\<in>set vs. \<not> flt (?sc u) (?sc v)"
      have "v # vs = [] @ getWinner_loop (v # vs) w m # vs" using eq same by simp
      moreover have "flt (?sc (getWinner_loop (v # vs) w m)) m"
        using eq same True by simp
      moreover have "\<forall>u\<in>set vs. \<not> flt (?sc u) (?sc (getWinner_loop (v # vs) w m))"
        using eq same rest by simp
      ultimately show ?thesis by (intro disjI2 exI [of _ "[]"] exI [of _ vs]) simp
    next
      fix pre post
      assume split: "vs = pre @ ?g # post" and below: "flt (?sc ?g) (?sc v)"
        and pre: "\<forall>u\<in>set pre. \<not> fle (?sc u) (?sc ?g)"
        and post: "\<forall>u\<in>set post. \<not> flt (?sc u) (?sc ?g)"
      have "v # vs = (v # pre) @ getWinner_loop (v # vs) w m # post"
        using split eq by simp
      moreover have "flt (?sc (getWinner_loop (v # vs) w m)) m"
        unfolding eq by (rule flt_trans [OF below True])
      moreover have "\<forall>u\<in>set (v # pre). \<not> fle (?sc u) (?sc (getWinner_loop (v # vs) w m))"
        using eq pre flt_not_fle [OF below] by simp
      moreover have "\<forall>u\<in>set post. \<not> flt (?sc u) (?sc (getWinner_loop (v # vs) w m))"
        using eq post by simp
      ultimately show ?thesis by blast
    qed
  next
    case False
    let ?g = "getWinner_loop vs w m"
    have eq: "getWinner_loop (v # vs) w m = ?g" using False by simp
    from Cons.IH [of w m] show ?thesis
    proof (elim disjE conjE exE)
      assume "?g = w" and "\<forall>u\<in>set vs. \<not> flt (?sc u) m"
      then show ?thesis using eq False by simp
    next
      fix pre post
      assume split: "vs = pre @ ?g # post" and below: "flt (?sc ?g) m"
        and pre: "\<forall>u\<in>set pre. \<not> fle (?sc u) (?sc ?g)"
        and post: "\<forall>u\<in>set post. \<not> flt (?sc u) (?sc ?g)"
      have "v # vs = (v # pre) @ getWinner_loop (v # vs) w m # post"
        using split eq by simp
      moreover have "flt (?sc (getWinner_loop (v # vs) w m)) m"
        using eq below by simp
      moreover have "\<forall>u\<in>set (v # pre). \<not> fle (?sc u) (?sc (getWinner_loop (v # vs) w m))"
        using eq pre not_flt_bound [OF False below] by simp
      moreover have "\<forall>u\<in>set post. \<not> flt (?sc u) (?sc (getWinner_loop (v # vs) w m))"
        using eq post by simp
      ultimately show ?thesis by blast
    qed
  qed
qed

lemma getWinner_Nil: "getWinner [] = zeroRunResult"
  by (simp add: getWinner_def)

section \<open>What reaches the result channel\<close>

lemma all_failed_make_chan: "all_failed (make_chan n)"
  by (simp add: all_failed_def make_chan_def)

text \<open>A trial that returns has sent nothing, or one failed result.\<close>

lemma trial_sends:
  assumes "runSimulationForNodePool r p c n w = (Returns c', w')"
  shows "c' = c \<or> (\<exists>e. c' = send c (zeroRunResult\<lparr>runResult_err := Some e\<rparr>))"
  using assms
  by (auto simp: runSimulationForNodePool_def Let_def
           split: prod.splits sum.splits option.splits)

lemma trial_all_failed:
  assumes "runSimulationForNodePool r p c n w = (Returns c', w')" and "all_failed c"
  shows "all_failed c'"
  using trial_sends [OF assms(1)] assms(2)
  by (auto simp: all_failed_def send_def)

lemma trial_length:
  assumes "runSimulationForNodePool r p c n w = (Returns c', w')"
  shows "length (chan_buf c') \<le> Suc (length (chan_buf c)) \<and> chan_cap c' = chan_cap c"
  using trial_sends [OF assms] by (auto simp: send_def)

lemma trigger_loop_all_failed:
  "triggerNodePoolSimulations_loop r ps c n w = (Returns c', w') \<Longrightarrow> all_failed c
     \<Longrightarrow> all_failed c'"
proof (induction ps arbitrary: c w)
  case Nil
  then show ?case by simp
next
  case (Cons p ps)
  then show ?case
    by (auto split: prod.splits outcome.splits dest: trial_all_failed)
qed

text \<open>The results sent in a round never exceed the room the channel was made with.\<close>

lemma trigger_loop_length:
  "triggerNodePoolSimulations_loop r ps c n w = (Returns c', w')
     \<Longrightarrow> length (chan_buf c') \<le> length (chan_buf c) + length ps \<and> chan_cap c' = chan_cap c"
proof (induction ps arbitrary: c w)
  case Nil
  then show ?case by simp
next
  case (Cons p ps)
  from Cons.prems obtain c1 w1 where
    t: "runSimulationForNodePool r p c n w = (Returns c1, w1)" and
    l: "triggerNodePoolSimulations_loop r ps c1 n w1 = (Returns c', w')"
    by (auto split: prod.splits outcome.splits)
  from trial_length [OF t] Cons.IH [OF l] show ?case by simp
qed

lemma round_fits_channel:
  assumes "triggerNodePoolSimulations r ps (make_chan (length ps)) n w = (Returns c', w')"
  shows "length (chan_buf c') \<le> chan_cap c' \<and> chan_closed c'"
proof -
  from assms obtain c1 where
    l: "triggerNodePoolSimulations_loop r ps (make_chan (length ps)) n w = (Returns c1, w')"
    and c': "c' = c1\<lparr>chan_closed := True\<rparr>"
    by (auto simp: triggerNodePoolSimulations_def split: prod.splits outcome.splits)
  from trigger_loop_length [OF l] c' show ?thesis by (simp add: make_chan_def)
qed

lemma trigger_all_failed:
  "triggerNodePoolSimulations r ps c n w = (Returns c', w') \<Longrightarrow> all_failed c
     \<Longrightarrow> all_failed c'"
  by (auto simp: triggerNodePoolSimulations_def all_failed_def
           split: prod.splits outcome.splits
           dest!: trigger_loop_all_failed)

text \<open>
  The receiving loop keeps the results without an error, in order, and leaves \<open>errs\<close> as
  it was.
\<close>

lemma collect_filter:
  "collect buf errs results = (errs, results @ filter (\<lambda>x. runResult_err x = None) buf)"
  by (induction buf arbitrary: results) auto

lemma collect_all_failed:
  "\<forall>x\<in>set buf. runResult_err x \<noteq> None \<Longrightarrow> collect buf errs results = (errs, results)"
  by (induction buf arbitrary: results) auto

section \<open>What a round and the loop can return\<close>

text \<open>
  Since only failed results are ever sent and the receiving loop drops them, a round has
  three outcomes: a panic, the error of the eligibility step, or the zero result with no
  pods and no error.
\<close>

lemma runSimulation_cases:
  assumes "runSimulation r shoot pods n w = (out, w')"
  shows "out = Panics \<or> out = Returns (Some zeroNodeRunResult, [], None)
         \<or> (\<exists>e. out = Returns (None, [], Some e))"
proof (cases "getEligibleNodePools r shoot w")
  case (Pair res w1)
  show ?thesis
  proof (cases res)
    case (Inl e)
    with Pair assms show ?thesis by (auto simp: runSimulation_def)
  next
    case (Inr pools)
    show ?thesis
    proof (cases "triggerNodePoolSimulations r pools (make_chan (length pools)) n w1")
      case trig: (Pair tout w2)
      show ?thesis
      proof (cases tout)
        case Panics
        with Pair Inr trig assms show ?thesis by (auto simp: runSimulation_def)
      next
        case (Returns c)
        from trigger_all_failed [OF trig [unfolded Returns] all_failed_make_chan]
        have "collect (chan_buf c) None [] = (None, [])"
          by (simp add: all_failed_def collect_all_failed)
        with Pair Inr trig Returns assms show ?thesis
          by (auto simp: runSimulation_def getWinner_Nil zeroRunResult_def)
      qed
    qed
  qed
qed

lemma Run_loop_Nil:
  "Run_loop r shoot fuel rec [] n lg w =
     Some (Returns (rec, None), lg @ [LogRunStarted (n + 1), LogAllScheduled], w)"
  by (simp add: Run_loop.simps)

text \<open>With room for one round the loop ends: in a panic, or with the recommendation it was given.\<close>

lemma Run_loop_Suc:
  "\<exists>out lg' w'. Run_loop r shoot (Suc k) rec pods n lg w = Some (out, lg', w')
      \<and> (out = Panics \<or> out = Returns (rec, None))"
proof (cases "pods = []")
  case True
  then show ?thesis by (simp add: Run_loop_Nil)
next
  case False
  obtain out w1 where rs: "runSimulation r shoot pods (n + 1) w = (out, w1)"
    by (cases "runSimulation r shoot pods (n + 1) w")
  from runSimulation_cases [OF rs] show ?thesis
  proof (elim disjE exE)
    assume "out = Panics"
    with rs False show ?thesis by (simp add: Run_loop.simps [of _ _ "Suc k"])
  next
    assume "out = Returns (Some zeroNodeRunResult, [], None)"
    with rs False show ?thesis
      by (simp add: Run_loop.simps [of _ _ "Suc k"] Run_loop_Nil)
  next
    fix e assume "out = Returns (None, [], Some e)"
    with rs False show ?thesis by (simp add: Run_loop.simps [of _ _ "Suc k"])
  qed
qed

text \<open>More room than one round changes nothing.\<close>

lemma Run_loop_one_round:
  "Run_loop r shoot (Suc k) rec pods n lg w = Run_loop r shoot (Suc 0) rec pods n lg w"
proof (cases "pods = []")
  case True
  then show ?thesis by (simp add: Run_loop_Nil)
next
  case False
  obtain out w1 where rs: "runSimulation r shoot pods (n + 1) w = (out, w1)"
    by (cases "runSimulation r shoot pods (n + 1) w")
  from runSimulation_cases [OF rs] show ?thesis
  proof (elim disjE exE)
    assume "out = Panics"
    with rs False show ?thesis
      by (simp add: Run_loop.simps [of _ _ "Suc k"] Run_loop.simps [of _ _ "Suc 0"])
  next
    assume "out = Returns (Some zeroNodeRunResult, [], None)"
    with rs False show ?thesis
      by (simp add: Run_loop.simps [of _ _ "Suc k"] Run_loop.simps [of _ _ "Suc 0"] Run_loop_Nil)
  next
    fix e assume "out = Returns (None, [], Some e)"
    with rs False show ?thesis
      by (simp add: Run_loop.simps [of _ _ "Suc k"] Run_loop.simps [of _ _ "Suc 0"])
  qed
qed

text \<open>
  After a successful listing and shoot fetch, \<open>Run\<close> ends in a panic or returns the empty
  recommendation with a nil error: no error of a round reaches the caller.
\<close>

lemma Run_after_setup:
  assumes "ListPods (engine r) w = (Inr pods, w1)"
      and "GetShootObj (engine r) (shootName r) w1 = (Inr shoot, w2)"
  shows "\<exists>out lg w'. Run r (Suc k) w = Some (out, lg, w')
           \<and> (out = Panics \<or> out = Returns (Map.empty, None))"
  using assms Run_loop_Suc [of r shoot k Map.empty pods 0 "[]" w2]
  by (simp add: Run_def getShoot_def)

section \<open>Eligibility: the loop as a filter\<close>

lemma sint_int32_len: "length xs < 2 ^ 31 \<Longrightarrow> sint (int32_len xs) = int (length xs)"
proof -
  assume b: "length xs < 2 ^ 31"
  have "sint (word_of_nat (length xs) :: 32 word)
          = (int (length xs) + 2 ^ 31) mod 2 ^ 32 - 2 ^ 31"
    using int_word_sint [where 'a = 32, of "int (length xs)"] by simp
  also have "\<dots> = int (length xs)"
    using b by simp
  finally show ?thesis by (simp add: int32_len_def)
qed

lemma hasHeadroom32_iff:
  "length (snd p) < 2 ^ 31 \<Longrightarrow> hasHeadroom32 p = hasHeadroom p"
  by (simp add: hasHeadroom32_def hasHeadroom_def word_sless_alt sint_int32_len)

lemma getEligibleNodePools_loop_filter:
  "length (nodeListings r ws w) = length ws \<Longrightarrow>
   fst (getEligibleNodePools_loop r ws acc w) =
     Inr (acc @ map toNodePool (filter hasHeadroom32 (zip ws (nodeListings r ws w))))"
proof (induction ws arbitrary: acc w)
  case Nil
  show ?case by simp
next
  case (Cons worker ws)
  obtain res w1 where l: "ListNodesInNodePool (engine r) (Worker_Name worker) w = (res, w1)"
    by (cases "ListNodesInNodePool (engine r) (Worker_Name worker) w")
  show ?case
  proof (cases res)
    case (Inl e)
    with l Cons.prems show ?thesis by simp
  next
    case (Inr nodes)
    with l Cons.prems have len: "length (nodeListings r ws w1) = length ws" by simp
    show ?thesis
      using l Inr Cons.IH [OF len]
      by (simp add: hasHeadroom32_def toNodePool_def signed.not_le [symmetric])
  qed
qed

lemma filter_headroom_eq:
  assumes "\<forall>nodes\<in>set ls. length nodes < 2 ^ 31"
  shows "filter hasHeadroom32 (zip ws ls) = filter hasHeadroom (zip ws ls)"
proof (rule filter_cong [OF refl])
  fix p assume "p \<in> set (zip ws ls)"
  then have "snd p \<in> set ls" by (metis set_zip_rightD prod.collapse)
  with assms have "length (snd p) < 2 ^ 31" by blast
  then show "hasHeadroom32 p = hasHeadroom p" by (rule hasHeadroom32_iff)
qed

text \<open>
  With room for at least one round \<open>Run\<close> ends, in a panic or returning the empty
  recommendation; and more room than one round changes nothing.
\<close>

lemma Run_Suc_shape:
  "\<exists>out lg w'. Run r (Suc k) w = Some (out, lg, w')
     \<and> (out = Panics \<or> (\<exists>e. out = Returns (Map.empty, e)))"
proof (cases "ListPods (engine r) w")
  case lp: (Pair res w1)
  show ?thesis
  proof (cases res)
    case (Inl e)
    with lp show ?thesis by (simp add: Run_def)
  next
    case (Inr pods)
    show ?thesis
    proof (cases "GetShootObj (engine r) (shootName r) w1")
      case gs: (Pair sres w2)
      show ?thesis
      proof (cases sres)
        case (Inl e)
        with lp Inr gs show ?thesis by (simp add: Run_def getShoot_def)
      next
        case sh: (Inr shoot)
        from Run_after_setup [OF lp [unfolded Inr] gs [unfolded sh], of k]
        show ?thesis by blast
      qed
    qed
  qed
qed

lemma Run_one_round: "Run r (Suc k) w = Run r (Suc 0) w"
  by (simp add: Run_def Let_def Run_loop_one_round [of _ _ k] split: prod.splits sum.splits)

section \<open>Evaluating the concrete inputs\<close>

lemmas input_defs =
  rOK_def rListNodesFails_def rAddNodesFails_def rNoShoot_def rIdle_def clearFails_def
  recommenderOf_def sandbox_def shoot1_def workerA_def workerB_def pod1_def
  nodeB_def nodeNoLabels_def inPool_def poolLabel_def trial_def pod2_def rTwoPods_def

lemmas program_defs =
  Run_def Run_loop.simps getShoot_def runSimulation_def getEligibleNodePools_def
  triggerNodePoolSimulations_def runSimulationForNodePool_def make_chan_def send_def
  getWinner_def zeroRunResult_def zeroNodeRunResult_def int32_len_def toNodePool_def
  Itoa.simps digit_def word_sle_eq Let_def

section \<open>The properties\<close>

text \<open>
  C1, as the code has it. \<open>Run\<close> creates the recommendation empty and no statement writes
  it: with room for at least one round \<open>Run\<close> ends, and whenever it returns, with or
  without an error and whatever the rounds selected, the recommendation is the empty map.
  No entry is incremented, so none is ever decremented either.
\<close>

theorem Run_recommendation_stays_empty:
  "\<exists>out lg w'. Run r (Suc k) w = Some (out, lg, w')
     \<and> (out = Panics \<or> (\<exists>e. out = Returns (Map.empty, e)))"
  by (rule Run_Suc_shape)

theorem Run_recommendation_stays_empty_witness:
  "Run rListNodesFails (Suc 0) [nodeB] =
     Some (Returns (Map.empty, None),
           [LogRunStarted 1, LogWinningScore 1 zeroNodeRunResult,
            LogRunStarted 2, LogAllScheduled], [nodeB])"
  using Run_recommendation_stays_empty [of rListNodesFails 0 "[nodeB]"]
  by (simp add: program_defs input_defs)

text \<open>
  C1, as the specification states it, fails: one pod is pending, both pools are eligible,
  round 1 logs its winner, and the recommendation that \<open>Run\<close> returns has no entry at all.
\<close>

theorem Run_winner_not_recorded:
  "Run rOK 1 [] =
     Some (Returns (Map.empty, None),
           [LogRunStarted 1, LogWinningScore 1 zeroNodeRunResult,
            LogRunStarted 2, LogAllScheduled], [])"
  by (simp add: program_defs input_defs)

text \<open>
  C2, as the code has it. When some result scores below \<open>math.MaxFloat64\<close>, \<open>getWinner\<close>
  returns an element of the result list; its score is at most the score of every result
  whose score is not NaN; and among results of equal score the first in the order of the
  list wins: every result before the winner scores strictly more (or NaN), no result
  after it scores strictly less. The pool name plays no part.
\<close>

theorem getWinner_first_minimum:
  assumes "\<exists>v\<in>set results. flt (CumulativeScore (runResult_result v)) MaxFloat64"
  shows "\<exists>pre post. results = pre @ getWinner results # post \<and>
           (\<forall>v\<in>set pre. \<not> fle (CumulativeScore (runResult_result v))
                              (CumulativeScore (runResult_result (getWinner results)))) \<and>
           (\<forall>v\<in>set post. \<not> flt (CumulativeScore (runResult_result v))
                               (CumulativeScore (runResult_result (getWinner results)))) \<and>
           (\<forall>v\<in>set results. CumulativeScore (runResult_result v) \<noteq> NaN \<longrightarrow>
                fle (CumulativeScore (runResult_result (getWinner results)))
                    (CumulativeScore (runResult_result v)))"
proof -
  let ?sc = "\<lambda>x. CumulativeScore (runResult_result x)"
  let ?g = "getWinner results"
  from getWinner_loop_shape [of results zeroRunResult MaxFloat64] assms
  obtain pre post where split: "results = pre @ ?g # post"
    and below: "flt (?sc ?g) MaxFloat64"
    and pre: "\<forall>v\<in>set pre. \<not> fle (?sc v) (?sc ?g)"
    and post: "\<forall>v\<in>set post. \<not> flt (?sc v) (?sc ?g)"
    unfolding getWinner_def by blast
  have g: "?sc ?g \<noteq> NaN" using flt_not_NaN [OF below] by simp
  have "fle (?sc ?g) (?sc v)" if "v \<in> set results" "?sc v \<noteq> NaN" for v
  proof -
    from that(1) split have "v \<in> set pre \<or> v = ?g \<or> v \<in> set post"
      by (metis Un_iff set_ConsD set_append)
    then have "\<not> flt (?sc v) (?sc ?g)"
      using pre post not_fle_not_flt flt_not_fle g by metis
    then show ?thesis using not_flt_fle that(2) g by blast
  qed
  with split pre post show ?thesis by blast
qed

theorem getWinner_first_minimum_witness:
  "flt (CumulativeScore (runResult_result (trial ''pool-c'' (Finite 1) []))) MaxFloat64 \<and>
   getWinner [trial ''pool-b'' (Finite 2) [], trial ''pool-c'' (Finite 1) [],
              trial ''pool-a'' (Finite 1) []]
     = trial ''pool-c'' (Finite 1) []"
proof -
  let ?rs = "[trial ''pool-b'' (Finite 2) [], trial ''pool-c'' (Finite 1) [],
              trial ''pool-a'' (Finite 1) []]"
  have h: "\<exists>v\<in>set ?rs. flt (CumulativeScore (runResult_result v)) MaxFloat64"
    by (simp add: trial_def MaxFloat64_def)
  from getWinner_first_minimum [OF h]
  show ?thesis by (simp add: getWinner_def trial_def MaxFloat64_def)
qed

text \<open>
  C2, as the specification states it, fails: two successful trials share the minimal
  score 1, pool \<open>pool-a\<close> is the smaller name, and the winner is \<open>pool-b\<close>, which came
  first.
\<close>

theorem getWinner_tie_goes_to_first:
  "getWinner [trial ''pool-b'' (Finite 1) [], trial ''pool-a'' (Finite 1) []]
     = trial ''pool-b'' (Finite 1) []
   \<and> CumulativeScore (runResult_result (trial ''pool-a'' (Finite 1) []))
       = CumulativeScore (runResult_result (trial ''pool-b'' (Finite 1) []))
   \<and> NodePoolName (runResult_result (trial ''pool-a'' (Finite 1) []))
       < NodePoolName (runResult_result (trial ''pool-b'' (Finite 1) []))"
  by (simp add: getWinner_def trial_def MaxFloat64_def)

text \<open>
  C3, evaluated where every trial fails: one pod pending, both pools eligible, every
  \<open>ListNodes\<close> call fails, so both trials send a failed result and the channel is closed
  holding exactly those two. The round nevertheless returns a non-nil winner (the zero
  result), no pods and a nil error: no aggregate error, and not "no winner".
\<close>

theorem runSimulation_all_trials_fail:
  "triggerNodePoolSimulations rListNodesFails
       [toNodePool (workerA, []), toNodePool (workerB, [])] (make_chan 2) 1 []
     = (Returns \<lparr>chan_cap = 2,
                 chan_buf =
                   [zeroRunResult\<lparr>runResult_err := Some (Error ''list nodes: connection refused'')\<rparr>,
                    zeroRunResult\<lparr>runResult_err := Some (Error ''list nodes: connection refused'')\<rparr>],
                 chan_closed = True\<rparr>, [])
   \<and> runSimulation rListNodesFails shoot1 [pod1] 1 []
     = (Returns (Some zeroNodeRunResult, [], None), [])"
  by (simp add: program_defs input_defs)

subsection \<open>The loop and its rounds\<close>








text \<open>
  C5, evaluated where a trial succeeds: both listings and \<open>AddNodes\<close> succeed, the trial
  returns, and the channel it was given is still empty; after the round's only trial the
  channel is closed with nothing in it. A trial reports only when a listing fails.
\<close>

theorem trial_success_sends_nothing:
  "runSimulationForNodePool rOK (toNodePool (workerA, [])) (make_chan 1) 1 []
     = (Returns (make_chan 1), [])
   \<and> triggerNodePoolSimulations rOK [toNodePool (workerA, [])] (make_chan 1) 1 []
     = (Returns \<lparr>chan_cap = 1, chan_buf = [], chan_closed = True\<rparr>, [])"
  by (simp add: program_defs input_defs)

text \<open>
  C6. When every \<open>ListNodesInNodePool\<close> call succeeds, \<open>getEligibleNodePools\<close> returns
  no error, and its list is, in the order of the workers, the pool record of exactly
  those workers whose 32-bit node count is below the maximum; a worker at or over its
  maximum is left out and nothing else happens. When every listing is shorter than
  \<open>2 ^ 31\<close> the 32-bit count is the number of nodes, and the test is
  \<open>current < max\<close> on the numbers.
\<close>

theorem getEligibleNodePools_iff_headroom:
  assumes "length (nodeListings r (Shoot_Workers shoot) w) = length (Shoot_Workers shoot)"
  shows "fst (getEligibleNodePools r shoot w) =
           Inr (map toNodePool (filter hasHeadroom32
                  (zip (Shoot_Workers shoot) (nodeListings r (Shoot_Workers shoot) w))))
         \<and> ((\<forall>nodes\<in>set (nodeListings r (Shoot_Workers shoot) w). length nodes < 2 ^ 31) \<longrightarrow>
              fst (getEligibleNodePools r shoot w) =
                Inr (map toNodePool (filter hasHeadroom
                       (zip (Shoot_Workers shoot) (nodeListings r (Shoot_Workers shoot) w)))))"
  using getEligibleNodePools_loop_filter [OF assms, of "[]"]
  by (simp add: getEligibleNodePools_def filter_headroom_eq)

theorem getEligibleNodePools_iff_headroom_witness:
  "length (nodeListings rOK (Shoot_Workers shoot1) [nodeB]) = length (Shoot_Workers shoot1)
   \<and> fst (getEligibleNodePools rOK shoot1 [nodeB]) = Inr [toNodePool (workerA, [])]
   \<and> hasHeadroom (workerA, []) \<and> \<not> hasHeadroom (workerB, [nodeB])"
proof -
  have h: "length (nodeListings rOK (Shoot_Workers shoot1) [nodeB]) = length (Shoot_Workers shoot1)"
    by (simp add: input_defs)
  from getEligibleNodePools_iff_headroom [OF h] h show ?thesis
    by (simp add: input_defs hasHeadroom_def hasHeadroom32_def int32_len_def
                  toNodePool_def word_sless_alt)
qed

text \<open>
  C7, as the code has it. When the listing returns no pod and the shoot is fetched, \<open>Run\<close>
  returns the empty recommendation and a nil error whatever the fuel, after the listing,
  the fetch and nothing else: the world it leaves is the one the fetch left, so no
  \<open>AddNodes\<close> and no other call was made.
\<close>

theorem Run_nothing_pending:
  assumes "ListPods (engine r) w = (Inr [], w1)"
      and "GetShootObj (engine r) (shootName r) w1 = (Inr shoot, w2)"
  shows "Run r fuel w =
           Some (Returns (Map.empty, None), [LogRunStarted 1, LogAllScheduled], w2)"
  using assms by (simp add: Run_def getShoot_def Run_loop_Nil)

theorem Run_nothing_pending_witness:
  "Run rIdle 0 [nodeB] =
     Some (Returns (Map.empty, None), [LogRunStarted 1, LogAllScheduled], [nodeB])"
proof -
  have h1: "ListPods (engine rIdle) [nodeB] = (Inr [], [nodeB])"
    by (simp add: input_defs)
  have h2: "GetShootObj (engine rIdle) (shootName rIdle) [nodeB] = (Inr shoot1, [nodeB])"
    by (simp add: input_defs)
  from Run_nothing_pending [OF h1 h2] show ?thesis .
qed

text \<open>
  C7, as the specification states it, fails: nothing is pending, the shoot cannot be
  fetched, and \<open>Run\<close> returns the fetch's error.
\<close>

theorem Run_nothing_pending_shoot_error:
  "Run rNoShoot 0 [] =
     Some (Returns (Map.empty, Some (Error ''shoot not found'')),
           [LogInternalError (Error ''shoot not found'')], [])"
  by (simp add: program_defs input_defs)

text \<open>
  C8, evaluated where a trial panics: the listing and the shoot fetch succeed, one pod is
  pending, and the sandbox holds a node whose label map is nil. The first trial's write
  of the simulation label panics, and \<open>Run\<close> returns nothing, neither a nil error nor
  any other.
\<close>

theorem Run_panics_on_nil_label_map:
  "ListPods (engine rOK) [nodeNoLabels] = (Inr [pod1], [nodeNoLabels])
   \<and> GetShootObj (engine rOK) (shootName rOK) [nodeNoLabels] = (Inr shoot1, [nodeNoLabels])
   \<and> Run rOK 1 [nodeNoLabels] = Some (Panics, [LogRunStarted 1], [nodeNoLabels])"
  by (simp add: program_defs input_defs)

text \<open>
  C9. When the trial's \<open>ListNodes\<close> succeeds, every listed node has a label map and
  \<open>AddNodes\<close> fails with an error \<open>e\<close>, the trial goes on to \<open>ListPods\<close> in the world that
  \<open>AddNodes\<close> left, and what it sends is decided by that listing alone: nothing when it
  succeeds, the listing's own error when it fails. The error \<open>e\<close> appears nowhere.
\<close>

theorem trial_ignores_AddNodes_error:
  assumes "ListNodes (engine r) w = (Inr nodes, w1)"
      and "copyNodes ''app.kubernetes.io/simulation-run''
             (NodePool_Name nodePool @ ''-'' @ Itoa runNum) nodes [] = Some NodeList"
      and "AddNodes (engine r) NodeList w1 = (Some e, w2)"
  shows "runSimulationForNodePool r nodePool resultCh runNum w =
           (case ListPods (engine r) w2 of
              (Inl e', w3) \<Rightarrow> (Returns (send resultCh (zeroRunResult\<lparr>runResult_err := Some e'\<rparr>)), w3)
            | (Inr pods, w3) \<Rightarrow> (Returns resultCh, w3))"
  using assms by (simp add: runSimulationForNodePool_def Let_def split: prod.splits sum.splits)

theorem trial_ignores_AddNodes_error_witness:
  "AddNodes (engine rAddNodesFails)
       [\<lparr>Node_Name = ''node-bSimRun-pool-a-1'',
         Node_Labels = Some [poolLabel \<mapsto> ''pool-b'',
                             ''app.kubernetes.io/simulation-run'' \<mapsto> ''pool-a-1'']\<rparr>] [nodeB]
     = (Some (Error ''add nodes: forbidden''), [nodeB])
   \<and> runSimulationForNodePool rAddNodesFails (toNodePool (workerA, [])) (make_chan 1) 1 [nodeB]
     = (Returns (make_chan 1), [nodeB])"
proof -
  let ?copy = "\<lparr>Node_Name = ''node-bSimRun-pool-a-1'',
                 Node_Labels = Some [poolLabel \<mapsto> ''pool-b'',
                                     ''app.kubernetes.io/simulation-run'' \<mapsto> ''pool-a-1'']\<rparr>"
  have h1: "ListNodes (engine rAddNodesFails) [nodeB] = (Inr [nodeB], [nodeB])"
    by (simp add: input_defs)
  have h2: "copyNodes ''app.kubernetes.io/simulation-run''
              (NodePool_Name (toNodePool (workerA, [])) @ ''-'' @ Itoa 1) [nodeB] [] = Some [?copy]"
    by (simp add: input_defs toNodePool_def Itoa.simps digit_def)
  have h3: "AddNodes (engine rAddNodesFails) [?copy] [nodeB]
              = (Some (Error ''add nodes: forbidden''), [nodeB])"
    by (simp add: input_defs)
  from trial_ignores_AddNodes_error [OF h1 h2 h3, of "make_chan 1"] h3 show ?thesis
    by (simp add: input_defs)
qed

text \<open>
  C10. When \<open>ClearAll\<close> fails, the handler has already written the success text: the
  response to a fresh writer has status 200, fixed by that first write, and its body is
  the success text followed by the error's text and a newline. The status 500 that
  \<open>http.Error\<close> asks for comes too late.
\<close>

theorem handleClearVirtualCluster_failure_after_success_text:
  assumes "ClearAll virtualAccess w = (Some e, w1)"
  shows "handleClearVirtualCluster virtualAccess newResponseWriter w =
           (\<lparr>rw_status = Some 200,
             rw_body = ''Cleared virtual cluster objects'' @ errorText e @ [CHR 0x0A]\<rparr>, w1)"
  using assms
  by (simp add: handleClearVirtualCluster_def newResponseWriter_def Write_def WriteHeader_def
                http_Error_def StatusInternalServerError_def)

theorem handleClearVirtualCluster_failure_witness:
  "handleClearVirtualCluster clearFails newResponseWriter [nodeB] =
     (\<lparr>rw_status = Some 200,
       rw_body = ''Cleared virtual cluster objectsdelete nodes: timeout'' @ [CHR 0x0A]\<rparr>, [nodeB])"
proof -
  have h: "ClearAll clearFails [nodeB] = (Some (Error ''delete nodes: timeout''), [nodeB])"
    by (simp add: clearFails_def sandbox_def)
  from handleClearVirtualCluster_failure_after_success_text [OF h] show ?thesis by simp
qed


end
